theory Spec2Isabelle
  imports Main "HOL-Library.Word"
begin

section \<open>Primitive data\<close>

text \<open>
  A \<^verbatim>\<open>Uint8Array\<close> is a list of 8-bit words. TypeScript numeric enums
  (\<^verbatim>\<open>NetworkType\<close>, \<^verbatim>\<open>LinkAction\<close>, \<^verbatim>\<open>TransactionType\<close>) and plain
  \<^verbatim>\<open>number\<close> fields are carried as natural numbers: at run time they are numbers, and
  \<^verbatim>\<open>valueOf()\<close> is the identity on them. Exceptions are values of \<open>error\<close>.
\<close>

type_synonym byte = "8 word"
type_synonym bytes = "byte list"
type_synonym NetworkType = nat
type_synonym LinkAction = nat

datatype error =
  HexError      \<comment> \<open>\<^verbatim>\<open>Convert.hexToUint8\<close>: odd length or a character that is no hex digit\<close>
| DecodeError   \<comment> \<open>the codec ran out of bytes while loading a builder\<close>
| EncodeError   \<comment> \<open>the codec refused a field while serializing\<close>
| TypeError     \<comment> \<open>a standalone-only member read on an embedded builder\<close>

definition andThen :: "error + 'a \<Rightarrow> ('a \<Rightarrow> error + 'b) \<Rightarrow> error + 'b" where
  "andThen r f = (case r of Inl e \<Rightarrow> Inl e | Inr x \<Rightarrow> f x)"

section \<open>Collaborators that are not part of the transaction class\<close>

subsection \<open>Convert\<close>

text \<open>
  Modelled from the spec: \<^verbatim>\<open>Convert.hexToUint8\<close> and \<^verbatim>\<open>Convert.uint8ToHex\<close>
  (core/format) are missing. The spec only says that byte sequences are "hex-encoded as
  text": two hex digits per byte, most significant nibble first. Encoding writes upper
  case digits; decoding accepts both cases and fails on an odd length or on any other
  character.
\<close>

definition nibbleToChar :: "nat \<Rightarrow> char" where
  "nibbleToChar n = ''0123456789ABCDEF'' ! n"

definition charToNibble :: "char \<Rightarrow> nat option" where
  "charToNibble c = map_of
     [(CHR ''0'', 0), (CHR ''1'', 1), (CHR ''2'', 2), (CHR ''3'', 3), (CHR ''4'', 4),
      (CHR ''5'', 5), (CHR ''6'', 6), (CHR ''7'', 7), (CHR ''8'', 8), (CHR ''9'', 9),
      (CHR ''A'', 10), (CHR ''B'', 11), (CHR ''C'', 12), (CHR ''D'', 13), (CHR ''E'', 14),
      (CHR ''F'', 15), (CHR ''a'', 10), (CHR ''b'', 11), (CHR ''c'', 12), (CHR ''d'', 13),
      (CHR ''e'', 14), (CHR ''f'', 15)] c"

fun uint8ToHex :: "bytes \<Rightarrow> string" where
  "uint8ToHex [] = []"
| "uint8ToHex (b # bs) =
     nibbleToChar (unat b div 16) # nibbleToChar (unat b mod 16) # uint8ToHex bs"

fun hexToUint8 :: "string \<Rightarrow> error + bytes" where
  "hexToUint8 [] = Inr []"
| "hexToUint8 [c] = Inl HexError"
| "hexToUint8 (c1 # c2 # cs) =
     (case (charToNibble c1, charToNibble c2) of
        (Some h, Some l) \<Rightarrow> andThen (hexToUint8 cs) (\<lambda>bs. Inr (of_nat (16 * h + l) # bs))
      | _ \<Rightarrow> Inl HexError)"

text \<open>
  \<^verbatim>\<open>s.match(`^[0]+$`)\<close> of the source, as a truth value: the string is not empty and
  every character of it is the digit zero.
\<close>

definition matchZeros :: "string \<Rightarrow> bool" where
  "matchZeros s = (s \<noteq> [] \<and> list_all (\<lambda>c. c = CHR ''0'') s)"

subsection \<open>UInt64 and Deadline\<close>

text \<open>
  Modelled from the spec: the classes \<^verbatim>\<open>UInt64\<close> and \<^verbatim>\<open>Deadline\<close> are missing.
  The spec gives \<open>maxFee\<close> as a "64-bit unsigned integer" and the deadline as a
  "timestamp value" of 8 bytes on the wire with an "empty/zero sentinel". A \<^verbatim>\<open>UInt64\<close>
  holds two 32-bit halves, and its DTO is the array \<^verbatim>\<open>[lower, higher]\<close>, here a pair.
  A \<^verbatim>\<open>Deadline\<close> holds one number.
\<close>

type_synonym UInt64DTO = "32 word \<times> 32 word"

record UInt64 =
  lower :: "32 word"
  higher :: "32 word"

definition UInt64_new :: "UInt64DTO \<Rightarrow> UInt64" where
  "UInt64_new uintArray = \<lparr>lower = fst uintArray, higher = snd uintArray\<rparr>"

definition UInt64_toDTO :: "UInt64 \<Rightarrow> UInt64DTO" where
  "UInt64_toDTO u = (lower u, higher u)"

record Deadline =
  adjustedValue :: nat

definition Deadline_createEmtpy :: Deadline where
  "Deadline_createEmtpy = \<lparr>adjustedValue = 0\<rparr>"

definition Deadline_createFromDTO :: "UInt64DTO \<Rightarrow> Deadline" where
  "Deadline_createFromDTO v = \<lparr>adjustedValue = unat (snd v) * 2 ^ 32 + unat (fst v)\<rparr>"

definition Deadline_toDTO :: "Deadline \<Rightarrow> UInt64DTO" where
  "Deadline_toDTO d = (of_nat (adjustedValue d), of_nat (adjustedValue d div 2 ^ 32))"

subsection \<open>Address and PublicAccount\<close>

text \<open>
  The derivation of an address from a public key is a hash computed outside the class, and
  the signature region of a payload is located by a helper of the base class. Both are
  taken as parameters: nothing here depends on what they compute.
\<close>

record externals =
  getSignatureFromPayload :: "string \<Rightarrow> bool \<Rightarrow> string option"
  publicKeyToAddress :: "string \<Rightarrow> NetworkType \<Rightarrow> string"

text \<open>
  Modelled from the spec: the classes \<^verbatim>\<open>Address\<close> and \<^verbatim>\<open>PublicAccount\<close> are
  missing. The spec asks for \<^verbatim>\<open>addressFromPublicKey(publicKey, networkType)\<close>, for an
  equality on addresses, and for a public account "built from" a key and a network type.
\<close>

record Address =
  plain :: string
  addressNetworkType :: NetworkType

definition Address_createFromPublicKey :: "externals \<Rightarrow> string \<Rightarrow> NetworkType \<Rightarrow> Address" where
  "Address_createFromPublicKey X pk nt =
     \<lparr>plain = publicKeyToAddress X pk nt, addressNetworkType = nt\<rparr>"

definition Address_equals :: "Address \<Rightarrow> Address \<Rightarrow> bool" where
  "Address_equals a b = (plain a = plain b \<and> addressNetworkType a = addressNetworkType b)"

record PublicAccount =
  publicKey :: string
  address :: Address

definition PublicAccount_createFromPublicKey ::
  "externals \<Rightarrow> string \<Rightarrow> NetworkType \<Rightarrow> PublicAccount" where
  "PublicAccount_createFromPublicKey X pk nt =
     \<lparr>publicKey = pk, address = Address_createFromPublicKey X pk nt\<rparr>"

subsection \<open>The generated codec\<close>

text \<open>
  Modelled from the spec: the builders of the codec library (their constructors, getters,
  \<^verbatim>\<open>serialize\<close> and \<^verbatim>\<open>loadFromBinary\<close>) are missing. Section 6 of the spec gives the
  wire layout, which is also the order of the constructors' parameters:
  standalone \<^verbatim>\<open>[signature][signer public key][version][network][type tag][max fee: 8]
  [deadline: 8][linked public key: 48][start epoch: 4][end epoch: 4][link action: 1]\<close>,
  embedded the same without signature, max fee and deadline. The spec leaves the widths of
  the first five fields open; they are 64, 32, 1, 1 and 2 bytes here. Integers are little
  endian. Loading fails when the bytes run out; the 48-byte length of the linked key is
  checked when encoding, as the spec says.
\<close>

datatype SignatureDto = SignatureDto bytes
datatype KeyDto = KeyDto (key: bytes)
datatype AmountDto = AmountDto (amount: UInt64DTO)
datatype TimestampDto = TimestampDto (timestamp: UInt64DTO)
datatype VotingKeyV1Dto = VotingKeyV1Dto (votingKeyV1: bytes)
datatype FinalizationEpochDto = FinalizationEpochDto (finalizationEpoch: nat)

datatype builder =
  VotingKeyLinkV1TransactionBuilder
    SignatureDto KeyDto nat NetworkType nat AmountDto TimestampDto
    VotingKeyV1Dto FinalizationEpochDto FinalizationEpochDto LinkAction
| EmbeddedVotingKeyLinkV1TransactionBuilder
    KeyDto nat NetworkType nat
    VotingKeyV1Dto FinalizationEpochDto FinalizationEpochDto LinkAction

fun getSignerPublicKey :: "builder \<Rightarrow> KeyDto" where
  "getSignerPublicKey (VotingKeyLinkV1TransactionBuilder sg sk v n t f d k s e a) = sk"
| "getSignerPublicKey (EmbeddedVotingKeyLinkV1TransactionBuilder sk v n t k s e a) = sk"

fun getNetwork :: "builder \<Rightarrow> NetworkType" where
  "getNetwork (VotingKeyLinkV1TransactionBuilder sg sk v n t f d k s e a) = n"
| "getNetwork (EmbeddedVotingKeyLinkV1TransactionBuilder sk v n t k s e a) = n"

fun getLinkedPublicKey :: "builder \<Rightarrow> VotingKeyV1Dto" where
  "getLinkedPublicKey (VotingKeyLinkV1TransactionBuilder sg sk v n t f d k s e a) = k"
| "getLinkedPublicKey (EmbeddedVotingKeyLinkV1TransactionBuilder sk v n t k s e a) = k"

fun getStartEpoch :: "builder \<Rightarrow> FinalizationEpochDto" where
  "getStartEpoch (VotingKeyLinkV1TransactionBuilder sg sk v n t f d k s e a) = s"
| "getStartEpoch (EmbeddedVotingKeyLinkV1TransactionBuilder sk v n t k s e a) = s"

fun getEndEpoch :: "builder \<Rightarrow> FinalizationEpochDto" where
  "getEndEpoch (VotingKeyLinkV1TransactionBuilder sg sk v n t f d k s e a) = e"
| "getEndEpoch (EmbeddedVotingKeyLinkV1TransactionBuilder sk v n t k s e a) = e"

fun getLinkAction :: "builder \<Rightarrow> LinkAction" where
  "getLinkAction (VotingKeyLinkV1TransactionBuilder sg sk v n t f d k s e a) = a"
| "getLinkAction (EmbeddedVotingKeyLinkV1TransactionBuilder sk v n t k s e a) = a"

text \<open>
  The deadline and the fee exist on the standalone builder only. The source reads them
  through a cast; on an embedded builder the read would be a run-time type error.
\<close>

fun getDeadline :: "builder \<Rightarrow> error + TimestampDto" where
  "getDeadline (VotingKeyLinkV1TransactionBuilder sg sk v n t f d k s e a) = Inr d"
| "getDeadline (EmbeddedVotingKeyLinkV1TransactionBuilder sk v n t k s e a) = Inl TypeError"

fun fee :: "builder \<Rightarrow> error + AmountDto" where
  "fee (VotingKeyLinkV1TransactionBuilder sg sk v n t f d k s e a) = Inr f"
| "fee (EmbeddedVotingKeyLinkV1TransactionBuilder sk v n t k s e a) = Inl TypeError"




text \<open>
  Modelled from the spec: the codec's integer fields are missing; an integer of \<open>n\<close> bytes
  is written least significant byte first, and a 64-bit DTO as its lower half followed by
  its higher half.
\<close>

fun uintToBuffer :: "nat \<Rightarrow> nat \<Rightarrow> bytes" where
  "uintToBuffer v 0 = []"
| "uintToBuffer v (Suc n) = of_nat (v mod 256) # uintToBuffer (v div 256) n"

fun bufferToUint :: "bytes \<Rightarrow> nat" where
  "bufferToUint [] = 0"
| "bufferToUint (b # bs) = unat b + 256 * bufferToUint bs"

definition uint64ToBuffer :: "UInt64DTO \<Rightarrow> bytes" where
  "uint64ToBuffer v = uintToBuffer (unat (fst v)) 4 @ uintToBuffer (unat (snd v)) 4"

definition bufferToUint64 :: "bytes \<Rightarrow> UInt64DTO" where
  "bufferToUint64 bs = (of_nat (bufferToUint (take 4 bs)), of_nat (bufferToUint (drop 4 bs)))"

text \<open>
  Modelled from the spec: reading \<open>n\<close> bytes off the front of a buffer, missing with the
  codec; it fails when fewer than \<open>n\<close> bytes are left ("payload too short").
\<close>

definition getBytes :: "bytes \<Rightarrow> nat \<Rightarrow> error + bytes \<times> bytes" where
  "getBytes binary n =
     (if length binary < n then Inl DecodeError
      else Inr (take n binary, drop n binary))"

text \<open>
  Modelled from the spec: \<^verbatim>\<open>serialize\<close> of the two builders is missing. The fields are
  written in the order of section 6 of the spec; the length of the linked key is checked
  here ("validated only downstream at encode time").
\<close>

fun bodyBytes ::
  "VotingKeyV1Dto \<Rightarrow> FinalizationEpochDto \<Rightarrow> FinalizationEpochDto \<Rightarrow> LinkAction \<Rightarrow> error + bytes" where
  "bodyBytes (VotingKeyV1Dto k) (FinalizationEpochDto s) (FinalizationEpochDto e) a =
     (if length k \<noteq> 48 then Inl EncodeError
      else Inr (k @ uintToBuffer s 4 @ uintToBuffer e 4 @ uintToBuffer a 1))"

fun serialize :: "builder \<Rightarrow> error + bytes" where
  "serialize (VotingKeyLinkV1TransactionBuilder (SignatureDto sg) (KeyDto sk) v n t
       (AmountDto f) (TimestampDto d) k s e a) =
     andThen (bodyBytes k s e a) (\<lambda>body.
       Inr (sg @ sk @ uintToBuffer v 1 @ uintToBuffer n 1 @ uintToBuffer t 2
            @ uint64ToBuffer f @ uint64ToBuffer d @ body))"
| "serialize (EmbeddedVotingKeyLinkV1TransactionBuilder (KeyDto sk) v n t k s e a) =
     andThen (bodyBytes k s e a) (\<lambda>body.
       Inr (sk @ uintToBuffer v 1 @ uintToBuffer n 1 @ uintToBuffer t 2 @ body))"

text \<open>
  Modelled from the spec: \<^verbatim>\<open>loadFromBinary\<close> of the two builders is missing. The fields
  are read one after the other in the order of section 6 of the spec, and the load fails
  with the decode error as soon as the bytes run out; bytes after the last field are not
  looked at.
\<close>

definition VotingKeyLinkV1TransactionBuilder_loadFromBinary :: "bytes \<Rightarrow> error + builder" where
  "VotingKeyLinkV1TransactionBuilder_loadFromBinary payload =
     andThen (getBytes payload 64) (\<lambda>(sg, r).
     andThen (getBytes r 32) (\<lambda>(sk, r).
     andThen (getBytes r 1) (\<lambda>(v, r).
     andThen (getBytes r 1) (\<lambda>(n, r).
     andThen (getBytes r 2) (\<lambda>(t, r).
     andThen (getBytes r 8) (\<lambda>(f, r).
     andThen (getBytes r 8) (\<lambda>(d, r).
     andThen (getBytes r 48) (\<lambda>(k, r).
     andThen (getBytes r 4) (\<lambda>(s, r).
     andThen (getBytes r 4) (\<lambda>(e, r).
     andThen (getBytes r 1) (\<lambda>(a, r).
       Inr (VotingKeyLinkV1TransactionBuilder (SignatureDto sg) (KeyDto sk)
              (bufferToUint v) (bufferToUint n) (bufferToUint t)
              (AmountDto (bufferToUint64 f)) (TimestampDto (bufferToUint64 d))
              (VotingKeyV1Dto k) (FinalizationEpochDto (bufferToUint s))
              (FinalizationEpochDto (bufferToUint e)) (bufferToUint a)))))))))))))"

definition EmbeddedVotingKeyLinkV1TransactionBuilder_loadFromBinary ::
  "bytes \<Rightarrow> error + builder" where
  "EmbeddedVotingKeyLinkV1TransactionBuilder_loadFromBinary payload =
     andThen (getBytes payload 32) (\<lambda>(sk, r).
     andThen (getBytes r 1) (\<lambda>(v, r).
     andThen (getBytes r 1) (\<lambda>(n, r).
     andThen (getBytes r 2) (\<lambda>(t, r).
     andThen (getBytes r 48) (\<lambda>(k, r).
     andThen (getBytes r 4) (\<lambda>(s, r).
     andThen (getBytes r 4) (\<lambda>(e, r).
     andThen (getBytes r 1) (\<lambda>(a, r).
       Inr (EmbeddedVotingKeyLinkV1TransactionBuilder (KeyDto sk)
              (bufferToUint v) (bufferToUint n) (bufferToUint t)
              (VotingKeyV1Dto k) (FinalizationEpochDto (bufferToUint s))
              (FinalizationEpochDto (bufferToUint e)) (bufferToUint a))))))))))"

subsection \<open>The base class Transaction\<close>

text \<open>
  Modelled from the spec: the base class \<^verbatim>\<open>Transaction\<close>, the enums
  \<^verbatim>\<open>TransactionType\<close> and \<^verbatim>\<open>TransactionVersion\<close> and the type
  \<^verbatim>\<open>TransactionInfo\<close> are missing. The spec lists the common fields (network type,
  version, deadline, max fee, signature, signer, transaction-info) and the common
  operations: the signed-by-address check, the signature and signer blocks handed to the
  codec (all zero when the field is unset, matching the zero-signer sentinel of parsing),
  and the conversion into the inner form "bound to the signer account", which is a wrapper
  around the instance here. The two enum members used by the class are constants whose
  values no statement below depends on, except that they fit their wire fields.
\<close>

typedecl TransactionInfo

definition VOTING_KEY_LINK :: nat where
  "VOTING_KEY_LINK = 16707"

definition VOTING_KEY_LINK_V1 :: nat where
  "VOTING_KEY_LINK_V1 = 1"

record Transaction =
  type :: nat
  networkType :: NetworkType
  version :: nat
  deadline :: Deadline
  maxFee :: UInt64
  signature :: "string option"
  signer :: "PublicAccount option"
  transactionInfo :: "TransactionInfo option"

text \<open>
  Modelled from the spec: the methods of the base class are missing. \<open>isSigned\<close> is the
  "signed-by" check: a signer is set and its address equals the given one. The signature
  and signer blocks are the hex-decoded fields, or 64 and 32 zero bytes when the field is
  unset. \<open>versionToDTO\<close> hands over the version.
\<close>

definition isSigned :: "'a Transaction_scheme \<Rightarrow> Address \<Rightarrow> bool" where
  "isSigned tx a = (case signer tx of None \<Rightarrow> False | Some s \<Rightarrow> Address_equals (address s) a)"

definition getSignatureAsBuilder :: "'a Transaction_scheme \<Rightarrow> error + SignatureDto" where
  "getSignatureAsBuilder tx =
     (case signature tx of
        None \<Rightarrow> Inr (SignatureDto (replicate 64 0))
      | Some s \<Rightarrow> andThen (hexToUint8 s) (\<lambda>bs. Inr (SignatureDto bs)))"

definition getSignerAsBuilder :: "'a Transaction_scheme \<Rightarrow> error + KeyDto" where
  "getSignerAsBuilder tx =
     (case signer tx of
        None \<Rightarrow> Inr (KeyDto (replicate 32 0))
      | Some s \<Rightarrow> andThen (hexToUint8 (publicKey s)) (\<lambda>bs. Inr (KeyDto bs)))"

definition versionToDTO :: "'a Transaction_scheme \<Rightarrow> nat" where
  "versionToDTO tx = version tx"

section \<open>VotingKeyLinkV1Transaction\<close>

record VotingKeyLinkV1Transaction = Transaction +
  linkedPublicKey :: string
  startEpoch :: nat
  endEpoch :: nat
  linkAction :: LinkAction

text \<open>
  Modelled from the spec: \<^verbatim>\<open>InnerTransaction\<close> and \<^verbatim>\<open>toAggregate\<close> of the base
  class are missing. The spec says the result is "wrapped into an inner transaction form
  bound to the signer account": the wrapper holds the instance and that account.
\<close>

datatype InnerTransaction =
  InnerTransaction (wrapped: VotingKeyLinkV1Transaction) (boundSigner: PublicAccount)

definition toAggregate :: "VotingKeyLinkV1Transaction \<Rightarrow> PublicAccount \<Rightarrow> InnerTransaction" where
  "toAggregate tx s = InnerTransaction tx s"

text \<open>The result type \<^verbatim>\<open>Transaction | InnerTransaction\<close> of parsing.\<close>

datatype parsed =
  AsTransaction VotingKeyLinkV1Transaction
| AsInnerTransaction InnerTransaction

fun instance_of :: "parsed \<Rightarrow> VotingKeyLinkV1Transaction" where
  "instance_of (AsTransaction tx) = tx"
| "instance_of (AsInnerTransaction i) = wrapped i"

text \<open>The constructor: it fixes the transaction type and passes the rest to the base class.\<close>

definition VotingKeyLinkV1Transaction_new ::
  "NetworkType \<Rightarrow> nat \<Rightarrow> Deadline \<Rightarrow> UInt64 \<Rightarrow> string \<Rightarrow> nat \<Rightarrow> nat \<Rightarrow> LinkAction \<Rightarrow>
   string option \<Rightarrow> PublicAccount option \<Rightarrow> TransactionInfo option \<Rightarrow>
   VotingKeyLinkV1Transaction" where
  "VotingKeyLinkV1Transaction_new nt ver dl fee' lpk se ee la sg sn ti =
     \<lparr>type = VOTING_KEY_LINK, networkType = nt, version = ver, deadline = dl, maxFee = fee',
      signature = sg, signer = sn, transactionInfo = ti,
      linkedPublicKey = lpk, startEpoch = se, endEpoch = ee, linkAction = la\<rparr>"

text \<open>
  \<^verbatim>\<open>create\<close>: the optional parameters are options; an omitted \<open>maxFee\<close> takes the
  default \<^verbatim>\<open>new UInt64([0, 0])\<close>. The constructor is called with ten arguments, so its
  eleventh parameter \<open>transactionInfo\<close> is undefined.
\<close>

definition create ::
  "Deadline \<Rightarrow> string \<Rightarrow> nat \<Rightarrow> nat \<Rightarrow> LinkAction \<Rightarrow> NetworkType \<Rightarrow> UInt64 option \<Rightarrow>
   string option \<Rightarrow> PublicAccount option \<Rightarrow> VotingKeyLinkV1Transaction" where
  "create dl lpk se ee la nt fee' sg sn =
     VotingKeyLinkV1Transaction_new nt VOTING_KEY_LINK_V1 dl
       (case fee' of None \<Rightarrow> UInt64_new (0, 0) | Some f \<Rightarrow> f)
       lpk se ee la sg sn None"

text \<open>
  \<^verbatim>\<open>createFromPayload\<close>, in the evaluation order of the source: the hex payload is
  converted, the builder is loaded with the schema chosen by \<open>isEmbedded\<close>, and the
  arguments of \<open>create\<close> are read from the builder. No exception is caught.
\<close>

definition createFromPayload :: "externals \<Rightarrow> string \<Rightarrow> bool \<Rightarrow> error + parsed" where
  "createFromPayload X payload isEmbedded =
     andThen (hexToUint8 payload) (\<lambda>binary.
     andThen (if isEmbedded then EmbeddedVotingKeyLinkV1TransactionBuilder_loadFromBinary binary
              else VotingKeyLinkV1TransactionBuilder_loadFromBinary binary) (\<lambda>builder.
       let signerPublicKey = uint8ToHex (key (getSignerPublicKey builder));
           networkType = getNetwork builder;
           signature = getSignatureFromPayload X payload isEmbedded
       in
     andThen (if isEmbedded then Inr Deadline_createEmtpy
              else andThen (getDeadline builder)
                     (\<lambda>d. Inr (Deadline_createFromDTO (timestamp d)))) (\<lambda>deadline.
     andThen (if isEmbedded then Inr (UInt64_new (0, 0))
              else andThen (fee builder) (\<lambda>f. Inr (UInt64_new (amount f)))) (\<lambda>maxFee.
       let transaction =
             create deadline
               (uint8ToHex (votingKeyV1 (getLinkedPublicKey builder)))
               (finalizationEpoch (getStartEpoch builder))
               (finalizationEpoch (getEndEpoch builder))
               (getLinkAction builder)
               networkType
               (Some maxFee)
               signature
               (if matchZeros signerPublicKey then None
                else Some (PublicAccount_createFromPublicKey X signerPublicKey networkType))
       in Inr (if isEmbedded
               then AsInnerTransaction
                      (toAggregate transaction
                         (PublicAccount_createFromPublicKey X signerPublicKey networkType))
               else AsTransaction transaction)))))"

text \<open>
  \<^verbatim>\<open>createBuilder\<close> and \<^verbatim>\<open>toEmbeddedTransaction\<close>: the arguments are evaluated
  left to right, and the hex conversions among them can fail.
\<close>

definition createBuilder :: "VotingKeyLinkV1Transaction \<Rightarrow> error + builder" where
  "createBuilder this =
     andThen (getSignatureAsBuilder this) (\<lambda>sg.
     andThen (getSignerAsBuilder this) (\<lambda>sk.
     andThen (hexToUint8 (linkedPublicKey this)) (\<lambda>lpk.
       Inr (VotingKeyLinkV1TransactionBuilder
              sg
              sk
              (versionToDTO this)
              (networkType this)
              VOTING_KEY_LINK
              (AmountDto (UInt64_toDTO (maxFee this)))
              (TimestampDto (Deadline_toDTO (deadline this)))
              (VotingKeyV1Dto lpk)
              (FinalizationEpochDto (startEpoch this))
              (FinalizationEpochDto (endEpoch this))
              (linkAction this)))))"

definition toEmbeddedTransaction :: "VotingKeyLinkV1Transaction \<Rightarrow> error + builder" where
  "toEmbeddedTransaction this =
     andThen (getSignerAsBuilder this) (\<lambda>sk.
     andThen (hexToUint8 (linkedPublicKey this)) (\<lambda>lpk.
       Inr (EmbeddedVotingKeyLinkV1TransactionBuilder
              sk
              (versionToDTO this)
              (networkType this)
              VOTING_KEY_LINK
              (VotingKeyV1Dto lpk)
              (FinalizationEpochDto (startEpoch this))
              (FinalizationEpochDto (endEpoch this))
              (linkAction this))))"

definition resolveAliases :: "VotingKeyLinkV1Transaction \<Rightarrow> VotingKeyLinkV1Transaction" where
  "resolveAliases this = this"

definition shouldNotifyAccount :: "externals \<Rightarrow> VotingKeyLinkV1Transaction \<Rightarrow> Address \<Rightarrow> bool" where
  "shouldNotifyAccount X this a =
     (isSigned this a \<or>
      Address_equals (Address_createFromPublicKey X (linkedPublicKey this) (networkType this)) a)"

text \<open>
  Modelled from the spec: \<^verbatim>\<open>Transaction.serialize\<close> of the base class is missing. The
  hex payload of an instance is the hex of the serialized builder: of \<open>createBuilder\<close> in
  the standalone form, of \<open>toEmbeddedTransaction\<close> in the embedded form.
\<close>

definition Transaction_serialize :: "VotingKeyLinkV1Transaction \<Rightarrow> error + string" where
  "Transaction_serialize this =
     andThen (createBuilder this) (\<lambda>b. andThen (serialize b) (\<lambda>bs. Inr (uint8ToHex bs)))"

definition embeddedPayload :: "VotingKeyLinkV1Transaction \<Rightarrow> error + string" where
  "embeddedPayload this =
     andThen (toEmbeddedTransaction this) (\<lambda>b. andThen (serialize b) (\<lambda>bs. Inr (uint8ToHex bs)))"

section \<open>Notions used to state the properties\<close>

text \<open>The schema-dependent load of \<open>createFromPayload\<close>, by name.\<close>

definition loadBuilder :: "bool \<Rightarrow> bytes \<Rightarrow> error + builder" where
  "loadBuilder isEmbedded binary =
     (if isEmbedded then EmbeddedVotingKeyLinkV1TransactionBuilder_loadFromBinary binary
      else VotingKeyLinkV1TransactionBuilder_loadFromBinary binary)"

text \<open>
  A hex string that is the encoding \<open>uint8ToHex\<close> gives to exactly \<open>n\<close> bytes, and an
  optional hex string that decodes to exactly \<open>n\<close> bytes.
\<close>

definition isHexOf :: "nat \<Rightarrow> string \<Rightarrow> bool" where
  "isHexOf n s = (case hexToUint8 s of Inl e \<Rightarrow> False | Inr bs \<Rightarrow> length bs = n \<and> uint8ToHex bs = s)"

definition decodesTo :: "nat \<Rightarrow> string \<Rightarrow> bool" where
  "decodesTo n s = (case hexToUint8 s of Inl e \<Rightarrow> False | Inr bs \<Rightarrow> length bs = n)"

text \<open>
  A valid field combination for \<open>create\<close>: every field fits the wire field that carries it.
  The deadline is an integer a JavaScript number holds exactly, the linked key is hex text
  (in either case of the letters) that decodes to 48 bytes, the epochs are 32-bit, the link
  action and the network type are one byte, a signature that is given decodes to 64 bytes
  and a signer that is given has a public key that decodes to 32 bytes.
\<close>

definition validFields ::
  "Deadline \<Rightarrow> string \<Rightarrow> nat \<Rightarrow> nat \<Rightarrow> LinkAction \<Rightarrow> NetworkType \<Rightarrow>
   string option \<Rightarrow> PublicAccount option \<Rightarrow> bool" where
  "validFields dl lpk se ee la nt sg sn =
     (adjustedValue dl < 2 ^ 53 \<and> decodesTo 48 lpk \<and> se < 2 ^ 32 \<and> ee < 2 ^ 32 \<and>
      la < 256 \<and> nt < 256 \<and>
      (case sg of None \<Rightarrow> True | Some s \<Rightarrow> decodesTo 64 s) \<and>
      (case sn of None \<Rightarrow> True | Some a \<Rightarrow> decodesTo 32 (publicKey a)))"

text \<open>
  The signer field of what \<open>createFromPayload\<close> returns: the signer of a transaction, and
  of an inner transaction the account it is bound to.
\<close>

fun resultSigner :: "parsed \<Rightarrow> PublicAccount option" where
  "resultSigner (AsTransaction tx) = signer tx"
| "resultSigner (AsInnerTransaction i) = Some (boundSigner i)"

text \<open>The signer public key bytes that the load of a payload decodes.\<close>

definition decodedSignerKey :: "bool \<Rightarrow> string \<Rightarrow> error + bytes" where
  "decodedSignerKey isEmbedded payload =
     andThen (hexToUint8 payload) (\<lambda>binary.
     andThen (loadBuilder isEmbedded binary) (\<lambda>b. Inr (key (getSignerPublicKey b))))"

section \<open>Example inputs\<close>

text \<open>
  Concrete inputs on which the properties below are exercised: collaborators that find no
  signature and take the public key itself as the address text, a 48-byte linked key, a
  32-byte signer key, the embedded and standalone payloads of a link from epoch 1 to
  epoch 10 on network 152 with the transactions they stand for, the account of the
  all-zero signer key, an address that belongs to neither key, and the same linked key
  written in lower case with the transaction that carries it.
\<close>

definition exampleExternals :: externals where
  "exampleExternals =
     \<lparr>getSignatureFromPayload = (\<lambda>payload isEmbedded. None),
      publicKeyToAddress = (\<lambda>pk nt. pk)\<rparr>"

definition exampleKey :: string where
  "exampleKey = ''ABABABABABABABABABABABABABABABABABABABABABABABABABABABABABABABABABABABABABABABABABABABABABABABAB''"

definition exampleSigner :: PublicAccount where
  "exampleSigner = PublicAccount_createFromPublicKey exampleExternals
     ''C4C4C4C4C4C4C4C4C4C4C4C4C4C4C4C4C4C4C4C4C4C4C4C4C4C4C4C4C4C4C4C4'' 152"

definition exampleTransaction :: VotingKeyLinkV1Transaction where
  "exampleTransaction =
     create \<lparr>adjustedValue = 3315799033608\<rparr> exampleKey 1 10 1 152
       (Some (UInt64_new (100, 0))) None (Some exampleSigner)"

definition exampleStandalonePayload :: string where
  "exampleStandalonePayload = ''00000000000000000000000000000000000000000000000000000000000000000000000000000000000000000000000000000000000000000000000000000000C4C4C4C4C4C4C4C4C4C4C4C4C4C4C4C4C4C4C4C4C4C4C4C4C4C4C4C4C4C4C4C40198434164000000000000000807060504030000ABABABABABABABABABABABABABABABABABABABABABABABABABABABABABABABABABABABABABABABABABABABABABABABAB010000000A00000001''"

definition exampleEmbeddedPayload :: string where
  "exampleEmbeddedPayload = ''000000000000000000000000000000000000000000000000000000000000000001984341ABABABABABABABABABABABABABABABABABABABABABABABABABABABABABABABABABABABABABABABABABABABABABABABAB010000000A00000001''"

definition exampleEmbeddedTransaction :: VotingKeyLinkV1Transaction where
  "exampleEmbeddedTransaction =
     create Deadline_createEmtpy exampleKey 1 10 1 152 (Some (UInt64_new (0, 0))) None None"

definition exampleZeroAccount :: PublicAccount where
  "exampleZeroAccount = PublicAccount_createFromPublicKey exampleExternals
     ''0000000000000000000000000000000000000000000000000000000000000000'' 152"

definition exampleOtherAddress :: Address where
  "exampleOtherAddress = \<lparr>plain = ''TOTHER'', addressNetworkType = 152\<rparr>"

definition exampleLowerKey :: string where
  "exampleLowerKey = ''abababababababababababababababababababababababababababababababababababababababababababababababab''"

definition exampleLowerTransaction :: VotingKeyLinkV1Transaction where
  "exampleLowerTransaction =
     create \<lparr>adjustedValue = 3315799033608\<rparr> exampleLowerKey 1 10 1 152
       (Some (UInt64_new (100, 0))) None (Some exampleSigner)"

definition exampleUnsignedPayload :: string where
  "exampleUnsignedPayload = ''0000000000000000000000000000000000000000000000000000000000000000000000000000000000000000000000000000000000000000000000000000000000000000000000000000000000000000000000000000000000000000000000000198434164000000000000000807060504030000ABABABABABABABABABABABABABABABABABABABABABABABABABABABABABABABABABABABABABABABABABABABABABABABAB010000000A00000001''"

definition exampleUnsignedTransaction :: VotingKeyLinkV1Transaction where
  "exampleUnsignedTransaction =
     create \<lparr>adjustedValue = 3315799033608\<rparr> exampleKey 1 10 1 152
       (Some (UInt64_new (100, 0))) None None"



section \<open>Auxiliary facts\<close>

lemma andThen_Inr [simp]: "andThen (Inr x) f = f x"
  by (simp add: andThen_def)

lemma andThen_Inl [simp]: "andThen (Inl e) f = Inl e"
  by (simp add: andThen_def)

lemma nibbles_decode: "list_all (\<lambda>k. charToNibble (nibbleToChar k) = Some k) [0..<16]"
  by (simp add: charToNibble_def nibbleToChar_def eval_nat_numeral)

lemma nibbles_zero: "list_all (\<lambda>k. nibbleToChar k = CHR ''0'' \<longleftrightarrow> k = 0) [0..<16]"
  by (simp add: nibbleToChar_def eval_nat_numeral)

lemma charToNibble_nibbleToChar: "k < 16 \<Longrightarrow> charToNibble (nibbleToChar k) = Some k"
  using nibbles_decode [unfolded list_all_iff set_upt] by simp

lemma nibbleToChar_zero: "k < 16 \<Longrightarrow> nibbleToChar k = CHR ''0'' \<longleftrightarrow> k = 0"
  using nibbles_zero [unfolded list_all_iff set_upt] by simp

lemma unat_byte_div16: "unat (b :: byte) div 16 < 16"
proof -
  have "unat b < 2 ^ LENGTH(8)" by (rule unsigned_less)
  then have "unat b < 256" by simp
  then show ?thesis by simp
qed

lemma hexToUint8_uint8ToHex: "hexToUint8 (uint8ToHex bs) = Inr bs"
  by (induction bs) (simp_all add: charToNibble_nibbleToChar unat_byte_div16)

lemma byte_nibbles_zero: "unat (b :: byte) div 16 = 0 \<and> unat b mod 16 = 0 \<longleftrightarrow> b = 0"
proof
  assume "unat b div 16 = 0 \<and> unat b mod 16 = 0"
  then have "unat b = 0" by presburger
  then show "b = 0" by (simp add: unat_eq_0)
qed simp

lemma matchZeros_uint8ToHex:
  "matchZeros (uint8ToHex bs) \<longleftrightarrow> bs \<noteq> [] \<and> list_all (\<lambda>b. b = 0) bs"
proof -
  have "list_all (\<lambda>c. c = CHR ''0'') (uint8ToHex bs) \<longleftrightarrow> list_all (\<lambda>b. b = 0) bs"
    by (induction bs)
      (simp_all add: nibbleToChar_zero unat_byte_div16 byte_nibbles_zero [symmetric]
        del: div_eq_0_iff)
  moreover have "uint8ToHex bs = [] \<longleftrightarrow> bs = []" by (cases bs) simp_all
  ultimately show ?thesis by (simp add: matchZeros_def)
qed

lemma length_uintToBuffer [simp]: "length (uintToBuffer v n) = n"
  by (induction n arbitrary: v) simp_all

lemma bufferToUint_uintToBuffer: "v < 256 ^ n \<Longrightarrow> bufferToUint (uintToBuffer v n) = v"
proof (induction n arbitrary: v)
  case 0
  then show ?case by simp
next
  case (Suc n)
  from Suc.prems have "v div 256 < 256 ^ n"
    by (simp add: less_mult_imp_div_less mult.commute)
  with Suc.IH have "bufferToUint (uintToBuffer (v div 256) n) = v div 256" .
  moreover have "unat (of_nat (v mod 256) :: byte) = v mod 256"
    by (simp add: unat_of_nat)
  ultimately show ?case by simp
qed

lemma bufferToUint_uintToBuffer1: "v < 256 \<Longrightarrow> bufferToUint (uintToBuffer v (Suc 0)) = v"
  using bufferToUint_uintToBuffer [of v 1] by simp

lemma bufferToUint_uintToBuffer2: "v < 65536 \<Longrightarrow> bufferToUint (uintToBuffer v 2) = v"
  using bufferToUint_uintToBuffer [of v 2] by simp

lemma bufferToUint_uintToBuffer4: "v < 4294967296 \<Longrightarrow> bufferToUint (uintToBuffer v 4) = v"
  using bufferToUint_uintToBuffer [of v 4] by simp

lemma unat_word32_bound: "unat (w :: 32 word) < 4294967296"
proof -
  have "unat w < 2 ^ LENGTH(32)" by (rule unsigned_less)
  then show ?thesis by simp
qed

lemma bufferToUint64_uint64ToBuffer: "bufferToUint64 (uint64ToBuffer v) = v"
  by (simp add: bufferToUint64_def uint64ToBuffer_def bufferToUint_uintToBuffer4
      unat_word32_bound)

lemma length_uint64ToBuffer [simp]: "length (uint64ToBuffer v) = 8"
  by (simp add: uint64ToBuffer_def)

lemma getBytes_append: "length xs = n \<Longrightarrow> getBytes (xs @ ys) n = Inr (xs, ys)"
  by (simp add: getBytes_def)

lemma getBytes_exact: "length xs = n \<Longrightarrow> getBytes xs n = Inr (xs, [])"
  by (simp add: getBytes_def)

lemma getBytes_short: "length bs < n \<Longrightarrow> getBytes bs n = Inl DecodeError"
  by (simp add: getBytes_def)

lemma load_serialize_standalone:
  assumes "length sg = 64" "length sk = 32" "v < 256" "n < 256" "t < 65536"
    and "length k = 48" "s < 4294967296" "e < 4294967296" "a < 256"
  shows "\<exists>bs. serialize (VotingKeyLinkV1TransactionBuilder (SignatureDto sg) (KeyDto sk) v n t
       (AmountDto f) (TimestampDto d) (VotingKeyV1Dto k) (FinalizationEpochDto s)
       (FinalizationEpochDto e) a) = Inr bs \<and> length bs = 173 \<and>
     VotingKeyLinkV1TransactionBuilder_loadFromBinary bs =
       Inr (VotingKeyLinkV1TransactionBuilder (SignatureDto sg) (KeyDto sk) v n t
       (AmountDto f) (TimestampDto d) (VotingKeyV1Dto k) (FinalizationEpochDto s)
       (FinalizationEpochDto e) a)"
  using assms
  by (simp add: VotingKeyLinkV1TransactionBuilder_loadFromBinary_def getBytes_append
      getBytes_exact bufferToUint_uintToBuffer1 bufferToUint_uintToBuffer2
      bufferToUint_uintToBuffer4 bufferToUint64_uint64ToBuffer del: uintToBuffer.simps)

lemma load_serialize_embedded:
  assumes "length sk = 32" "v < 256" "n < 256" "t < 65536"
    and "length k = 48" "s < 4294967296" "e < 4294967296" "a < 256"
  shows "\<exists>bs. serialize (EmbeddedVotingKeyLinkV1TransactionBuilder (KeyDto sk) v n t
       (VotingKeyV1Dto k) (FinalizationEpochDto s) (FinalizationEpochDto e) a) = Inr bs \<and>
     length bs = 93 \<and>
     EmbeddedVotingKeyLinkV1TransactionBuilder_loadFromBinary bs =
       Inr (EmbeddedVotingKeyLinkV1TransactionBuilder (KeyDto sk) v n t
       (VotingKeyV1Dto k) (FinalizationEpochDto s) (FinalizationEpochDto e) a)"
  using assms
  by (simp add: EmbeddedVotingKeyLinkV1TransactionBuilder_loadFromBinary_def getBytes_append
      getBytes_exact bufferToUint_uintToBuffer1 bufferToUint_uintToBuffer2
      bufferToUint_uintToBuffer4 del: uintToBuffer.simps)

lemma andThen_getBytes_DecodeError:
  assumes "\<And>x r. length x = n \<Longrightarrow> length r + n = length bs \<Longrightarrow> f x r = Inl DecodeError"
  shows "andThen (getBytes bs n) (\<lambda>(x, r). f x r) = Inl DecodeError"
  using assms [of "take n bs" "drop n bs"] by (simp add: getBytes_def)

lemma load_standalone_short:
  assumes "length bs < 173"
  shows "VotingKeyLinkV1TransactionBuilder_loadFromBinary bs = Inl DecodeError"
  unfolding VotingKeyLinkV1TransactionBuilder_loadFromBinary_def
  apply (rule andThen_getBytes_DecodeError)+
  using assms by arith

lemma load_embedded_short:
  assumes "length bs < 93"
  shows "EmbeddedVotingKeyLinkV1TransactionBuilder_loadFromBinary bs = Inl DecodeError"
  unfolding EmbeddedVotingKeyLinkV1TransactionBuilder_loadFromBinary_def
  apply (rule andThen_getBytes_DecodeError)+
  using assms by arith

lemma load_standalone_long:
  assumes "173 \<le> length bs"
  shows "VotingKeyLinkV1TransactionBuilder_loadFromBinary bs =
     Inr (VotingKeyLinkV1TransactionBuilder
            (SignatureDto (take 64 bs))
            (KeyDto (take 32 (drop 64 bs)))
            (bufferToUint (take 1 (drop 96 bs)))
            (bufferToUint (take 1 (drop 97 bs)))
            (bufferToUint (take 2 (drop 98 bs)))
            (AmountDto (bufferToUint64 (take 8 (drop 100 bs))))
            (TimestampDto (bufferToUint64 (take 8 (drop 108 bs))))
            (VotingKeyV1Dto (take 48 (drop 116 bs)))
            (FinalizationEpochDto (bufferToUint (take 4 (drop 164 bs))))
            (FinalizationEpochDto (bufferToUint (take 4 (drop 168 bs))))
            (bufferToUint (take 1 (drop 172 bs))))"
  using assms
  by (auto simp: VotingKeyLinkV1TransactionBuilder_loadFromBinary_def getBytes_def)

lemma load_embedded_long:
  assumes "93 \<le> length bs"
  shows "EmbeddedVotingKeyLinkV1TransactionBuilder_loadFromBinary bs =
     Inr (EmbeddedVotingKeyLinkV1TransactionBuilder
            (KeyDto (take 32 bs))
            (bufferToUint (take 1 (drop 32 bs)))
            (bufferToUint (take 1 (drop 33 bs)))
            (bufferToUint (take 2 (drop 34 bs)))
            (VotingKeyV1Dto (take 48 (drop 36 bs)))
            (FinalizationEpochDto (bufferToUint (take 4 (drop 84 bs))))
            (FinalizationEpochDto (bufferToUint (take 4 (drop 88 bs))))
            (bufferToUint (take 1 (drop 92 bs))))"
  using assms
  by (auto simp: EmbeddedVotingKeyLinkV1TransactionBuilder_loadFromBinary_def getBytes_def)

lemma andThen_eq_Inr: "andThen r f = Inr y \<longleftrightarrow> (\<exists>x. r = Inr x \<and> f x = Inr y)"
  by (cases r) simp_all

lemma load_standalone_cases:
  "VotingKeyLinkV1TransactionBuilder_loadFromBinary bs = Inr b \<Longrightarrow> 173 \<le> length bs"
  using load_standalone_short [of bs] by (cases "length bs < 173") simp_all

lemma load_embedded_cases:
  "EmbeddedVotingKeyLinkV1TransactionBuilder_loadFromBinary bs = Inr b \<Longrightarrow> 93 \<le> length bs"
  using load_embedded_short [of bs] by (cases "length bs < 93") simp_all

lemma createFromPayload_standalone_decoded:
  assumes "hexToUint8 p = Inr bs"
    and "VotingKeyLinkV1TransactionBuilder_loadFromBinary bs = Inr b"
  shows "\<exists>d f. getDeadline b = Inr d \<and> fee b = Inr f \<and>
     length (key (getSignerPublicKey b)) = 32 \<and>
     length (votingKeyV1 (getLinkedPublicKey b)) = 48 \<and>
     createFromPayload X p False =
       Inr (AsTransaction
         (create (Deadline_createFromDTO (timestamp d))
            (uint8ToHex (votingKeyV1 (getLinkedPublicKey b)))
            (finalizationEpoch (getStartEpoch b))
            (finalizationEpoch (getEndEpoch b))
            (getLinkAction b)
            (getNetwork b)
            (Some (UInt64_new (amount f)))
            (getSignatureFromPayload X p False)
            (if matchZeros (uint8ToHex (key (getSignerPublicKey b))) then None
             else Some (PublicAccount_createFromPublicKey X
                          (uint8ToHex (key (getSignerPublicKey b))) (getNetwork b)))))"
proof -
  have len: "173 \<le> length bs" using assms(2) by (rule load_standalone_cases)
  from assms(2) have b: "b = VotingKeyLinkV1TransactionBuilder
            (SignatureDto (take 64 bs))
            (KeyDto (take 32 (drop 64 bs)))
            (bufferToUint (take 1 (drop 96 bs)))
            (bufferToUint (take 1 (drop 97 bs)))
            (bufferToUint (take 2 (drop 98 bs)))
            (AmountDto (bufferToUint64 (take 8 (drop 100 bs))))
            (TimestampDto (bufferToUint64 (take 8 (drop 108 bs))))
            (VotingKeyV1Dto (take 48 (drop 116 bs)))
            (FinalizationEpochDto (bufferToUint (take 4 (drop 164 bs))))
            (FinalizationEpochDto (bufferToUint (take 4 (drop 168 bs))))
            (bufferToUint (take 1 (drop 172 bs)))"
    unfolding load_standalone_long [OF len] by simp
  have l1: "length (key (getSignerPublicKey b)) = 32" using len unfolding b by simp
  have l2: "length (votingKeyV1 (getLinkedPublicKey b)) = 48" using len unfolding b by simp
  have d: "getDeadline b = Inr (TimestampDto (bufferToUint64 (take 8 (drop 108 bs))))"
    unfolding b by simp
  have f: "fee b = Inr (AmountDto (bufferToUint64 (take 8 (drop 100 bs))))"
    unfolding b by simp
  have "createFromPayload X p False =
       Inr (AsTransaction
         (create (Deadline_createFromDTO (timestamp (TimestampDto (bufferToUint64 (take 8 (drop 108 bs))))))
            (uint8ToHex (votingKeyV1 (getLinkedPublicKey b)))
            (finalizationEpoch (getStartEpoch b))
            (finalizationEpoch (getEndEpoch b))
            (getLinkAction b)
            (getNetwork b)
            (Some (UInt64_new (amount (AmountDto (bufferToUint64 (take 8 (drop 100 bs)))))))
            (getSignatureFromPayload X p False)
            (if matchZeros (uint8ToHex (key (getSignerPublicKey b))) then None
             else Some (PublicAccount_createFromPublicKey X
                          (uint8ToHex (key (getSignerPublicKey b))) (getNetwork b)))))"
    by (simp add: createFromPayload_def assms d f Let_def del: AmountDto.sel TimestampDto.sel)
  with d f l1 l2 show ?thesis by blast
qed

lemma createFromPayload_embedded_decoded:
  assumes "hexToUint8 p = Inr bs"
    and "EmbeddedVotingKeyLinkV1TransactionBuilder_loadFromBinary bs = Inr b"
  shows "length (key (getSignerPublicKey b)) = 32 \<and>
     length (votingKeyV1 (getLinkedPublicKey b)) = 48 \<and>
     createFromPayload X p True =
       Inr (AsInnerTransaction
         (toAggregate
           (create Deadline_createEmtpy
              (uint8ToHex (votingKeyV1 (getLinkedPublicKey b)))
              (finalizationEpoch (getStartEpoch b))
              (finalizationEpoch (getEndEpoch b))
              (getLinkAction b)
              (getNetwork b)
              (Some (UInt64_new (0, 0)))
              (getSignatureFromPayload X p True)
              (if matchZeros (uint8ToHex (key (getSignerPublicKey b))) then None
               else Some (PublicAccount_createFromPublicKey X
                            (uint8ToHex (key (getSignerPublicKey b))) (getNetwork b))))
           (PublicAccount_createFromPublicKey X
              (uint8ToHex (key (getSignerPublicKey b))) (getNetwork b))))"
proof -
  have len: "93 \<le> length bs" using assms(2) by (rule load_embedded_cases)
  from assms(2) have b: "b = EmbeddedVotingKeyLinkV1TransactionBuilder
            (KeyDto (take 32 bs))
            (bufferToUint (take 1 (drop 32 bs)))
            (bufferToUint (take 1 (drop 33 bs)))
            (bufferToUint (take 2 (drop 34 bs)))
            (VotingKeyV1Dto (take 48 (drop 36 bs)))
            (FinalizationEpochDto (bufferToUint (take 4 (drop 84 bs))))
            (FinalizationEpochDto (bufferToUint (take 4 (drop 88 bs))))
            (bufferToUint (take 1 (drop 92 bs)))"
    unfolding load_embedded_long [OF len] by simp
  have l1: "length (key (getSignerPublicKey b)) = 32" using len unfolding b by simp
  have l2: "length (votingKeyV1 (getLinkedPublicKey b)) = 48" using len unfolding b by simp
  have "createFromPayload X p True =
       Inr (AsInnerTransaction
         (toAggregate
           (create Deadline_createEmtpy
              (uint8ToHex (votingKeyV1 (getLinkedPublicKey b)))
              (finalizationEpoch (getStartEpoch b))
              (finalizationEpoch (getEndEpoch b))
              (getLinkAction b)
              (getNetwork b)
              (Some (UInt64_new (0, 0)))
              (getSignatureFromPayload X p True)
              (if matchZeros (uint8ToHex (key (getSignerPublicKey b))) then None
               else Some (PublicAccount_createFromPublicKey X
                            (uint8ToHex (key (getSignerPublicKey b))) (getNetwork b))))
           (PublicAccount_createFromPublicKey X
              (uint8ToHex (key (getSignerPublicKey b))) (getNetwork b))))"
    by (simp add: createFromPayload_def assms Let_def)
  with l1 l2 show ?thesis by blast
qed

lemma createFromPayload_Inr_decoded:
  assumes "createFromPayload X p isEmbedded = Inr r"
  shows "\<exists>bs b. hexToUint8 p = Inr bs \<and> loadBuilder isEmbedded bs = Inr b"
  using assms by (auto simp: createFromPayload_def loadBuilder_def andThen_eq_Inr)

lemma matchZeros_key:
  "length bs = 32 \<Longrightarrow> matchZeros (uint8ToHex bs) \<longleftrightarrow> list_all (\<lambda>x. x = 0) bs"
  by (auto simp: matchZeros_uint8ToHex)

lemma create_sel [simp]:
  "type (create dl lpk se ee la nt fee' sg sn) = VOTING_KEY_LINK"
  "networkType (create dl lpk se ee la nt fee' sg sn) = nt"
  "version (create dl lpk se ee la nt fee' sg sn) = VOTING_KEY_LINK_V1"
  "deadline (create dl lpk se ee la nt fee' sg sn) = dl"
  "maxFee (create dl lpk se ee la nt fee' sg sn) =
     (case fee' of None \<Rightarrow> UInt64_new (0, 0) | Some f \<Rightarrow> f)"
  "signature (create dl lpk se ee la nt fee' sg sn) = sg"
  "signer (create dl lpk se ee la nt fee' sg sn) = sn"
  "transactionInfo (create dl lpk se ee la nt fee' sg sn) = None"
  "linkedPublicKey (create dl lpk se ee la nt fee' sg sn) = lpk"
  "startEpoch (create dl lpk se ee la nt fee' sg sn) = se"
  "endEpoch (create dl lpk se ee la nt fee' sg sn) = ee"
  "linkAction (create dl lpk se ee la nt fee' sg sn) = la"
  by (simp_all add: create_def VotingKeyLinkV1Transaction_new_def)

lemma andThen_eq_Inl:
  "andThen r f = Inl e \<longleftrightarrow> r = Inl e \<or> (\<exists>x. r = Inr x \<and> f x = Inl e)"
  by (cases r) simp_all

lemma Deadline_roundtrip:
  assumes "adjustedValue d < 2 ^ 64"
  shows "Deadline_createFromDTO (Deadline_toDTO d) = d"
proof -
  let ?v = "adjustedValue d"
  have lo: "unat (of_nat ?v :: 32 word) = ?v mod 4294967296"
    by (simp add: unat_of_nat)
  from assms have "?v div 4294967296 < 4294967296" by simp
  then have hi: "unat (of_nat (?v div 4294967296) :: 32 word) = ?v div 4294967296"
    by (simp add: unat_of_nat)
  show ?thesis
    by (simp add: Deadline_createFromDTO_def Deadline_toDTO_def lo hi)
qed

lemma UInt64_roundtrip: "UInt64_new (UInt64_toDTO u) = u"
  by (simp add: UInt64_new_def UInt64_toDTO_def)

lemma length_replicate_bytes: "length (replicate n (0 :: byte)) = n"
  by simp

lemma valid_signature_block:
  assumes "case sg of None \<Rightarrow> True | Some s \<Rightarrow> decodesTo 64 s"
    and "signature tx = sg"
  shows "\<exists>bs. getSignatureAsBuilder tx = Inr (SignatureDto bs) \<and> length bs = 64"
  using assms
  by (cases sg) (auto simp: getSignatureAsBuilder_def decodesTo_def split: sum.splits)

lemma valid_signer_block:
  assumes "case sn of None \<Rightarrow> True | Some a \<Rightarrow> decodesTo 32 (publicKey a)"
    and "signer tx = sn"
  shows "\<exists>bs. getSignerAsBuilder tx = Inr (KeyDto bs) \<and> length bs = 32"
  using assms
  by (cases sn) (auto simp: getSignerAsBuilder_def decodesTo_def split: sum.splits)

lemma isHexOf_D:
  assumes "isHexOf n s"
  shows "\<exists>bs. hexToUint8 s = Inr bs \<and> length bs = n \<and> uint8ToHex bs = s"
  using assms by (auto simp: isHexOf_def split: sum.splits)

lemma decodesTo_D:
  assumes "decodesTo n s"
  shows "\<exists>bs. hexToUint8 s = Inr bs \<and> length bs = n"
  using assms by (auto simp: decodesTo_def split: sum.splits)

lemma valid_standalone_payload:
  assumes "validFields dl lpk se ee la nt sg sn"
  shows "\<exists>kb bs b.
     hexToUint8 lpk = Inr kb \<and> length kb = 48 \<and>
     Transaction_serialize (create dl lpk se ee la nt fee' sg sn) = Inr (uint8ToHex bs) \<and>
     length bs = 173 \<and>
     VotingKeyLinkV1TransactionBuilder_loadFromBinary bs = Inr b \<and>
     getLinkedPublicKey b = VotingKeyV1Dto kb \<and>
     getStartEpoch b = FinalizationEpochDto se \<and>
     getEndEpoch b = FinalizationEpochDto ee \<and>
     getLinkAction b = la \<and> getNetwork b = nt \<and>
     getDeadline b = Inr (TimestampDto (Deadline_toDTO dl)) \<and>
     fee b = Inr (AmountDto (UInt64_toDTO (maxFee (create dl lpk se ee la nt fee' sg sn))))"
proof -
  let ?tx = "create dl lpk se ee la nt fee' sg sn"
  from assms have key: "decodesTo 48 lpk"
    and se: "se < 4294967296" and ee: "ee < 4294967296" and la: "la < 256" and nt: "nt < 256"
    and vsg: "case sg of None \<Rightarrow> True | Some s \<Rightarrow> decodesTo 64 s"
    and vsn: "case sn of None \<Rightarrow> True | Some a \<Rightarrow> decodesTo 32 (publicKey a)"
    by (simp_all add: validFields_def)
  from decodesTo_D [OF key] obtain kb where
    kb: "hexToUint8 lpk = Inr kb" "length kb = 48" by blast
  from valid_signature_block [OF vsg, of ?tx] obtain sgb where
    sgb: "getSignatureAsBuilder ?tx = Inr (SignatureDto sgb)" "length sgb = 64" by auto
  from valid_signer_block [OF vsn, of ?tx] obtain skb where
    skb: "getSignerAsBuilder ?tx = Inr (KeyDto skb)" "length skb = 32" by auto
  let ?f = "AmountDto (UInt64_toDTO (maxFee ?tx))"
  let ?d = "TimestampDto (Deadline_toDTO dl)"
  let ?b = "VotingKeyLinkV1TransactionBuilder (SignatureDto sgb) (KeyDto skb)
              VOTING_KEY_LINK_V1 nt VOTING_KEY_LINK ?f ?d (VotingKeyV1Dto kb)
              (FinalizationEpochDto se) (FinalizationEpochDto ee) la"
  have v: "VOTING_KEY_LINK_V1 < 256" and t: "VOTING_KEY_LINK < 65536"
    by (simp_all add: VOTING_KEY_LINK_V1_def VOTING_KEY_LINK_def)
  have cb: "createBuilder ?tx = Inr ?b"
    by (simp add: createBuilder_def sgb skb kb versionToDTO_def)
  from load_serialize_standalone [OF sgb(2) skb(2) v nt t kb(2) se ee la,
      of "UInt64_toDTO (maxFee ?tx)" "Deadline_toDTO dl"]
  obtain bs where bs: "serialize ?b = Inr bs" "length bs = 173"
    "VotingKeyLinkV1TransactionBuilder_loadFromBinary bs = Inr ?b" by blast
  have p: "Transaction_serialize ?tx = Inr (uint8ToHex bs)"
    by (simp only: Transaction_serialize_def cb bs(1) andThen_Inr)
  show ?thesis
    by (rule exI [of _ kb], rule exI [of _ bs], rule exI [of _ ?b])
      (simp only: kb bs(2) bs(3) p getLinkedPublicKey.simps getStartEpoch.simps
        getEndEpoch.simps getLinkAction.simps getNetwork.simps getDeadline.simps fee.simps
        simp_thms)
qed

lemma valid_embedded_payload:
  assumes "validFields dl lpk se ee la nt sg sn"
  shows "\<exists>kb bs b.
     hexToUint8 lpk = Inr kb \<and> length kb = 48 \<and>
     embeddedPayload (create dl lpk se ee la nt fee' sg sn) = Inr (uint8ToHex bs) \<and>
     length bs = 93 \<and>
     EmbeddedVotingKeyLinkV1TransactionBuilder_loadFromBinary bs = Inr b \<and>
     getLinkedPublicKey b = VotingKeyV1Dto kb \<and>
     getStartEpoch b = FinalizationEpochDto se \<and>
     getEndEpoch b = FinalizationEpochDto ee \<and>
     getLinkAction b = la \<and> getNetwork b = nt"
proof -
  let ?tx = "create dl lpk se ee la nt fee' sg sn"
  from assms have key: "decodesTo 48 lpk"
    and se: "se < 4294967296" and ee: "ee < 4294967296" and la: "la < 256" and nt: "nt < 256"
    and vsn: "case sn of None \<Rightarrow> True | Some a \<Rightarrow> decodesTo 32 (publicKey a)"
    by (simp_all add: validFields_def)
  from decodesTo_D [OF key] obtain kb where
    kb: "hexToUint8 lpk = Inr kb" "length kb = 48" by blast
  from valid_signer_block [OF vsn, of ?tx] obtain skb where
    skb: "getSignerAsBuilder ?tx = Inr (KeyDto skb)" "length skb = 32" by auto
  let ?eb = "EmbeddedVotingKeyLinkV1TransactionBuilder (KeyDto skb)
              VOTING_KEY_LINK_V1 nt VOTING_KEY_LINK (VotingKeyV1Dto kb)
              (FinalizationEpochDto se) (FinalizationEpochDto ee) la"
  have v: "VOTING_KEY_LINK_V1 < 256" and t: "VOTING_KEY_LINK < 65536"
    by (simp_all add: VOTING_KEY_LINK_V1_def VOTING_KEY_LINK_def)
  have ceb: "toEmbeddedTransaction ?tx = Inr ?eb"
    by (simp add: toEmbeddedTransaction_def skb kb versionToDTO_def)
  from load_serialize_embedded [OF skb(2) v nt t kb(2) se ee la]
  obtain ebs where ebs: "serialize ?eb = Inr ebs" "length ebs = 93"
    "EmbeddedVotingKeyLinkV1TransactionBuilder_loadFromBinary ebs = Inr ?eb" by blast
  have ep: "embeddedPayload ?tx = Inr (uint8ToHex ebs)"
    by (simp only: embeddedPayload_def ceb ebs(1) andThen_Inr)
  show ?thesis
    by (rule exI [of _ kb], rule exI [of _ ebs], rule exI [of _ ?eb])
      (simp only: kb ebs(2) ebs(3) ep getLinkedPublicKey.simps getStartEpoch.simps
        getEndEpoch.simps getLinkAction.simps getNetwork.simps simp_thms)
qed



subsection \<open>The example inputs, evaluated\<close>

lemma replicate_numeral: "replicate (numeral k) x = x # replicate (pred_numeral k) x"
  by (simp only: numeral_eq_Suc [of k] replicate.simps)

lemma uintToBuffer_numeral:
  "uintToBuffer v (numeral k) = of_nat (v mod 256) # uintToBuffer (v div 256) (pred_numeral k)"
  by (simp only: numeral_eq_Suc [of k] uintToBuffer.simps)

lemma example_parse_standalone:
  "createFromPayload exampleExternals exampleStandalonePayload False =
     Inr (AsTransaction exampleTransaction)"
  by (simp add: createFromPayload_def exampleStandalonePayload_def exampleTransaction_def
      exampleSigner_def exampleKey_def exampleExternals_def charToNibble_def nibbleToChar_def
      VotingKeyLinkV1TransactionBuilder_loadFromBinary_def getBytes_def Let_def create_def
      VotingKeyLinkV1Transaction_new_def UInt64_new_def bufferToUint64_def
      Deadline_createFromDTO_def matchZeros_def PublicAccount_createFromPublicKey_def
      Address_createFromPublicKey_def)

lemma example_parse_embedded:
  "createFromPayload exampleExternals exampleEmbeddedPayload True =
     Inr (AsInnerTransaction (toAggregate exampleEmbeddedTransaction exampleZeroAccount))"
  by (simp add: createFromPayload_def exampleEmbeddedPayload_def exampleEmbeddedTransaction_def
      exampleZeroAccount_def exampleKey_def exampleExternals_def charToNibble_def
      nibbleToChar_def EmbeddedVotingKeyLinkV1TransactionBuilder_loadFromBinary_def
      getBytes_def Let_def create_def VotingKeyLinkV1Transaction_new_def UInt64_new_def
      Deadline_createEmtpy_def matchZeros_def PublicAccount_createFromPublicKey_def
      Address_createFromPublicKey_def toAggregate_def)


lemma example_serialize_embedded:
  "embeddedPayload exampleEmbeddedTransaction = Inr exampleEmbeddedPayload"
  by (simp add: embeddedPayload_def toEmbeddedTransaction_def exampleEmbeddedPayload_def
      exampleEmbeddedTransaction_def exampleKey_def charToNibble_def nibbleToChar_def
      create_def VotingKeyLinkV1Transaction_new_def getSignerAsBuilder_def versionToDTO_def
      VOTING_KEY_LINK_def VOTING_KEY_LINK_V1_def replicate_numeral uintToBuffer_numeral)


lemma example_valid_lower:
  "validFields \<lparr>adjustedValue = 3315799033608\<rparr> exampleLowerKey 1 10 1 152 None
     (Some exampleSigner)"
  by (simp add: validFields_def decodesTo_def exampleLowerKey_def exampleSigner_def
      exampleExternals_def PublicAccount_createFromPublicKey_def charToNibble_def)

lemma example_serialize_lower:
  "Transaction_serialize exampleLowerTransaction = Inr exampleStandalonePayload"
  by (simp add: Transaction_serialize_def createBuilder_def exampleStandalonePayload_def
      exampleLowerTransaction_def exampleSigner_def exampleLowerKey_def exampleExternals_def
      charToNibble_def nibbleToChar_def create_def VotingKeyLinkV1Transaction_new_def
      UInt64_new_def UInt64_toDTO_def Deadline_toDTO_def uint64ToBuffer_def
      getSignatureAsBuilder_def getSignerAsBuilder_def versionToDTO_def
      PublicAccount_createFromPublicKey_def Address_createFromPublicKey_def
      VOTING_KEY_LINK_def VOTING_KEY_LINK_V1_def replicate_numeral uintToBuffer_numeral)

lemma example_keys_differ: "exampleKey \<noteq> exampleLowerKey"
  by (simp add: exampleKey_def exampleLowerKey_def)

lemma example_parse_unsigned:
  "createFromPayload exampleExternals exampleUnsignedPayload False =
     Inr (AsTransaction exampleUnsignedTransaction)"
  by (simp add: createFromPayload_def exampleUnsignedPayload_def exampleUnsignedTransaction_def
      exampleKey_def exampleExternals_def charToNibble_def nibbleToChar_def
      VotingKeyLinkV1TransactionBuilder_loadFromBinary_def getBytes_def Let_def create_def
      VotingKeyLinkV1Transaction_new_def UInt64_new_def bufferToUint64_def
      Deadline_createFromDTO_def matchZeros_def)


lemma example_decoded_keys:
  "decodedSignerKey True exampleEmbeddedPayload = Inr (replicate 32 0)"
  "decodedSignerKey False exampleUnsignedPayload = Inr (replicate 32 0)"
  "decodedSignerKey False exampleStandalonePayload = Inr (replicate 32 196)"
  by (simp_all add: decodedSignerKey_def loadBuilder_def exampleEmbeddedPayload_def
      exampleUnsignedPayload_def exampleStandalonePayload_def charToNibble_def
      EmbeddedVotingKeyLinkV1TransactionBuilder_loadFromBinary_def
      VotingKeyLinkV1TransactionBuilder_loadFromBinary_def getBytes_def replicate_numeral)


section \<open>The properties of the specification\<close>

text \<open>
  Claim C1 (round trip), as the code has it. For every valid field combination, the payload
  of the transaction built by \<open>create\<close> parses with \<open>createFromPayload\<close>, and the parsed
  instance has the same \<open>startEpoch\<close>, \<open>endEpoch\<close>, \<open>linkAction\<close> and \<open>networkType\<close>, in the
  standalone form also the same \<open>maxFee\<close> and \<open>deadline\<close>. Its \<open>linkedPublicKey\<close> is the
  hex text that \<open>uint8ToHex\<close> writes for the 48 bytes of the given key: it decodes to the
  same bytes, and it is the given text itself when that text is what \<open>uint8ToHex\<close> writes.
  The embedded form is parsed with \<open>isEmbedded = True\<close> and read through the inner
  transaction it returns.
\<close>

theorem roundtrip_up_to_hex_case:
  assumes "validFields dl lpk se ee la nt sg sn"
  shows "(\<exists>p tx' kb.
            Transaction_serialize (create dl lpk se ee la nt fee' sg sn) = Inr p \<and>
            createFromPayload X p False = Inr (AsTransaction tx') \<and>
            hexToUint8 lpk = Inr kb \<and>
            linkedPublicKey tx' = uint8ToHex kb \<and>
            hexToUint8 (linkedPublicKey tx') = Inr kb \<and>
            (isHexOf 48 lpk \<longrightarrow> linkedPublicKey tx' = lpk) \<and>
            startEpoch tx' = se \<and> endEpoch tx' = ee \<and>
            linkAction tx' = la \<and> networkType tx' = nt \<and>
            maxFee tx' = maxFee (create dl lpk se ee la nt fee' sg sn) \<and>
            deadline tx' = dl) \<and>
         (\<exists>p i kb.
            embeddedPayload (create dl lpk se ee la nt fee' sg sn) = Inr p \<and>
            createFromPayload X p True = Inr (AsInnerTransaction i) \<and>
            hexToUint8 lpk = Inr kb \<and>
            linkedPublicKey (wrapped i) = uint8ToHex kb \<and>
            hexToUint8 (linkedPublicKey (wrapped i)) = Inr kb \<and>
            (isHexOf 48 lpk \<longrightarrow> linkedPublicKey (wrapped i) = lpk) \<and>
            startEpoch (wrapped i) = se \<and> endEpoch (wrapped i) = ee \<and>
            linkAction (wrapped i) = la \<and> networkType (wrapped i) = nt)"
proof -
  let ?tx = "create dl lpk se ee la nt fee' sg sn"
  from assms have dl: "adjustedValue dl < 2 ^ 64" by (simp add: validFields_def)
  from valid_standalone_payload [OF assms, of fee'] obtain kb bs b where
    kb: "hexToUint8 lpk = Inr kb"
    and p: "Transaction_serialize ?tx = Inr (uint8ToHex bs)"
    and b: "VotingKeyLinkV1TransactionBuilder_loadFromBinary bs = Inr b"
    and g: "getLinkedPublicKey b = VotingKeyV1Dto kb" "getStartEpoch b = FinalizationEpochDto se"
      "getEndEpoch b = FinalizationEpochDto ee" "getLinkAction b = la" "getNetwork b = nt"
      "getDeadline b = Inr (TimestampDto (Deadline_toDTO dl))"
      "fee b = Inr (AmountDto (UInt64_toDTO (maxFee ?tx)))"
    by blast
  from valid_embedded_payload [OF assms, of fee'] obtain kb' ebs eb where
    kb': "hexToUint8 lpk = Inr kb'"
    and ep: "embeddedPayload ?tx = Inr (uint8ToHex ebs)"
    and eb: "EmbeddedVotingKeyLinkV1TransactionBuilder_loadFromBinary ebs = Inr eb"
    and eg: "getLinkedPublicKey eb = VotingKeyV1Dto kb'"
      "getStartEpoch eb = FinalizationEpochDto se" "getEndEpoch eb = FinalizationEpochDto ee"
      "getLinkAction eb = la" "getNetwork eb = nt"
    by blast
  from kb kb' have same: "kb' = kb" by simp
  have canon: "isHexOf 48 lpk \<longrightarrow> uint8ToHex kb = lpk"
    by (simp add: isHexOf_def kb)
  from createFromPayload_standalone_decoded [OF hexToUint8_uint8ToHex b, of X]
  obtain tx' where tx': "createFromPayload X (uint8ToHex bs) False = Inr (AsTransaction tx')"
    "linkedPublicKey tx' = uint8ToHex kb" "startEpoch tx' = se" "endEpoch tx' = ee"
    "linkAction tx' = la" "networkType tx' = nt" "maxFee tx' = maxFee ?tx" "deadline tx' = dl"
    by (auto simp: g UInt64_roundtrip Deadline_roundtrip [OF dl])
  from createFromPayload_embedded_decoded [OF hexToUint8_uint8ToHex eb, of X]
  obtain i where i: "createFromPayload X (uint8ToHex ebs) True = Inr (AsInnerTransaction i)"
    "linkedPublicKey (wrapped i) = uint8ToHex kb" "startEpoch (wrapped i) = se"
    "endEpoch (wrapped i) = ee" "linkAction (wrapped i) = la" "networkType (wrapped i) = nt"
    by (auto simp: eg same toAggregate_def)
  have 1: "\<exists>p tx' kb.
            Transaction_serialize ?tx = Inr p \<and>
            createFromPayload X p False = Inr (AsTransaction tx') \<and>
            hexToUint8 lpk = Inr kb \<and>
            linkedPublicKey tx' = uint8ToHex kb \<and>
            hexToUint8 (linkedPublicKey tx') = Inr kb \<and>
            (isHexOf 48 lpk \<longrightarrow> linkedPublicKey tx' = lpk) \<and>
            startEpoch tx' = se \<and> endEpoch tx' = ee \<and>
            linkAction tx' = la \<and> networkType tx' = nt \<and>
            maxFee tx' = maxFee ?tx \<and> deadline tx' = dl"
    by (rule exI [of _ "uint8ToHex bs"], rule exI [of _ tx'], rule exI [of _ kb])
      (simp add: p tx' kb canon hexToUint8_uint8ToHex del: create_sel)
  have 2: "\<exists>p i kb.
            embeddedPayload ?tx = Inr p \<and>
            createFromPayload X p True = Inr (AsInnerTransaction i) \<and>
            hexToUint8 lpk = Inr kb \<and>
            linkedPublicKey (wrapped i) = uint8ToHex kb \<and>
            hexToUint8 (linkedPublicKey (wrapped i)) = Inr kb \<and>
            (isHexOf 48 lpk \<longrightarrow> linkedPublicKey (wrapped i) = lpk) \<and>
            startEpoch (wrapped i) = se \<and> endEpoch (wrapped i) = ee \<and>
            linkAction (wrapped i) = la \<and> networkType (wrapped i) = nt"
    by (rule exI [of _ "uint8ToHex ebs"], rule exI [of _ i], rule exI [of _ kb])
      (simp add: ep i kb canon hexToUint8_uint8ToHex del: create_sel)
  from 1 2 show ?thesis by (rule conjI)
qed

theorem roundtrip_up_to_hex_case_witness:
  "validFields \<lparr>adjustedValue = 3315799033608\<rparr> exampleLowerKey 1 10 1 152 None
     (Some exampleSigner) \<and>
   Transaction_serialize exampleLowerTransaction = Inr exampleStandalonePayload \<and>
   createFromPayload exampleExternals exampleStandalonePayload False =
     Inr (AsTransaction exampleTransaction) \<and>
   hexToUint8 (linkedPublicKey exampleTransaction) = hexToUint8 exampleLowerKey \<and>
   (\<exists>p i kb. embeddedPayload exampleLowerTransaction = Inr p \<and>
      createFromPayload exampleExternals p True = Inr (AsInnerTransaction i) \<and>
      hexToUint8 exampleLowerKey = Inr kb \<and>
      linkedPublicKey (wrapped i) = uint8ToHex kb \<and> startEpoch (wrapped i) = 1 \<and>
      endEpoch (wrapped i) = 10 \<and> linkAction (wrapped i) = 1 \<and>
      networkType (wrapped i) = 152)"
proof -
  note v = example_valid_lower
  from roundtrip_up_to_hex_case [OF v, of "Some (UInt64_new (100, 0))" exampleExternals]
  have "\<exists>p i kb. embeddedPayload exampleLowerTransaction = Inr p \<and>
      createFromPayload exampleExternals p True = Inr (AsInnerTransaction i) \<and>
      hexToUint8 exampleLowerKey = Inr kb \<and>
      linkedPublicKey (wrapped i) = uint8ToHex kb \<and> startEpoch (wrapped i) = 1 \<and>
      endEpoch (wrapped i) = 10 \<and> linkAction (wrapped i) = 1 \<and>
      networkType (wrapped i) = 152"
    unfolding exampleLowerTransaction_def by blast
  moreover have "hexToUint8 (linkedPublicKey exampleTransaction) = hexToUint8 exampleLowerKey"
    by (simp add: exampleTransaction_def exampleKey_def exampleLowerKey_def charToNibble_def)
  ultimately show ?thesis
    using v example_serialize_lower example_parse_standalone by blast
qed

text \<open>
  The claim as the spec words it, with an identical \<open>linkedPublicKey\<close>, fails for a key given
  in lower case: the fields are valid, the transaction serializes, the payload parses, and
  the parsed key is the upper-case text.
\<close>

theorem roundtrip_lower_case_key_counterexample:
  "validFields \<lparr>adjustedValue = 3315799033608\<rparr> exampleLowerKey 1 10 1 152 None
     (Some exampleSigner) \<and>
   linkedPublicKey exampleLowerTransaction = exampleLowerKey \<and>
   Transaction_serialize exampleLowerTransaction = Inr exampleStandalonePayload \<and>
   createFromPayload exampleExternals exampleStandalonePayload False =
     Inr (AsTransaction exampleTransaction) \<and>
   linkedPublicKey exampleTransaction = exampleKey \<and>
   exampleKey \<noteq> exampleLowerKey"
  using example_valid_lower example_serialize_lower example_parse_standalone
    example_keys_differ
  by (simp add: exampleLowerTransaction_def exampleTransaction_def)

text \<open>
  Claim C2 (zero-signer sentinel), as the code has it. Whenever \<open>createFromPayload\<close>
  returns, the payload was converted and loaded into a builder. For a standalone payload
  the signer of the result is unset if the builder's signer public key is all zero, and
  otherwise is the public account built from that key (as hex) and the decoded network
  type. For an embedded payload the returned inner transaction is bound to that public
  account whatever the key is, also when it is all zero.
\<close>

theorem createFromPayload_result_signer:
  assumes "createFromPayload X payload isEmbedded = Inr r"
  shows "\<exists>binary b. hexToUint8 payload = Inr binary \<and> loadBuilder isEmbedded binary = Inr b \<and>
     decodedSignerKey isEmbedded payload = Inr (key (getSignerPublicKey b)) \<and>
     resultSigner r =
       (if \<not> isEmbedded \<and> list_all (\<lambda>x. x = 0) (key (getSignerPublicKey b)) then None
        else Some (PublicAccount_createFromPublicKey X
                     (uint8ToHex (key (getSignerPublicKey b))) (getNetwork b)))"
proof -
  from createFromPayload_Inr_decoded [OF assms] obtain binary b where
    bin: "hexToUint8 payload = Inr binary" and b: "loadBuilder isEmbedded binary = Inr b"
    by blast
  have k: "decodedSignerKey isEmbedded payload = Inr (key (getSignerPublicKey b))"
    by (simp add: decodedSignerKey_def bin b)
  have "resultSigner r =
       (if \<not> isEmbedded \<and> list_all (\<lambda>x. x = 0) (key (getSignerPublicKey b)) then None
        else Some (PublicAccount_createFromPublicKey X
                     (uint8ToHex (key (getSignerPublicKey b))) (getNetwork b)))"
  proof (cases isEmbedded)
    case True
    with b have "EmbeddedVotingKeyLinkV1TransactionBuilder_loadFromBinary binary = Inr b"
      by (simp add: loadBuilder_def)
    from createFromPayload_embedded_decoded [OF bin this, of X] assms True
    show ?thesis by (auto simp: toAggregate_def)
  next
    case False
    with b have "VotingKeyLinkV1TransactionBuilder_loadFromBinary binary = Inr b"
      by (simp add: loadBuilder_def)
    from createFromPayload_standalone_decoded [OF bin this, of X] assms False
    show ?thesis by (auto simp: matchZeros_key)
  qed
  with bin b k show ?thesis by blast
qed

theorem createFromPayload_result_signer_witness:
  "createFromPayload exampleExternals exampleUnsignedPayload False =
     Inr (AsTransaction exampleUnsignedTransaction) \<and>
   decodedSignerKey False exampleUnsignedPayload = Inr (replicate 32 0) \<and>
   resultSigner (AsTransaction exampleUnsignedTransaction) = None \<and>
   createFromPayload exampleExternals exampleStandalonePayload False =
     Inr (AsTransaction exampleTransaction) \<and>
   decodedSignerKey False exampleStandalonePayload = Inr (replicate 32 196) \<and>
   resultSigner (AsTransaction exampleTransaction) = Some exampleSigner"
  using createFromPayload_result_signer [OF example_parse_unsigned]
    createFromPayload_result_signer [OF example_parse_standalone]
    example_parse_unsigned example_parse_standalone example_decoded_keys
  by (simp add: exampleTransaction_def exampleUnsignedTransaction_def)

text \<open>
  The claim as the spec words it, for every parsed payload, fails for an embedded payload
  whose signer key is all zero: the inner transaction that is returned carries the account
  of the zero key as its signer.
\<close>

theorem embedded_zero_key_signer_counterexample:
  "decodedSignerKey True exampleEmbeddedPayload = Inr (replicate 32 0) \<and>
   createFromPayload exampleExternals exampleEmbeddedPayload True =
     Inr (AsInnerTransaction (toAggregate exampleEmbeddedTransaction exampleZeroAccount)) \<and>
   resultSigner (AsInnerTransaction (toAggregate exampleEmbeddedTransaction exampleZeroAccount))
     = Some exampleZeroAccount \<and>
   resultSigner (AsInnerTransaction (toAggregate exampleEmbeddedTransaction exampleZeroAccount))
     \<noteq> None"
  using example_parse_embedded example_decoded_keys
  by (simp add: toAggregate_def)

text \<open>
  Claim C3 (notification predicate). \<open>shouldNotifyAccount\<close> holds for an address exactly
  when the inherited signed-by check holds for it or the address derived from
  \<open>linkedPublicKey\<close> on the transaction's network equals it. So it holds for the
  linked-key address whatever the signer is, and it fails for an address that is neither
  the signer's nor the linked key's.
\<close>

theorem shouldNotifyAccount_iff:
  "(shouldNotifyAccount X this a \<longleftrightarrow>
      isSigned this a \<or>
      Address_equals (Address_createFromPublicKey X (linkedPublicKey this) (networkType this)) a)
   \<and> shouldNotifyAccount X this
        (Address_createFromPublicKey X (linkedPublicKey this) (networkType this))
   \<and> ((case signer this of None \<Rightarrow> True | Some s \<Rightarrow> address s \<noteq> a) \<and>
        Address_createFromPublicKey X (linkedPublicKey this) (networkType this) \<noteq> a
        \<longrightarrow> \<not> shouldNotifyAccount X this a)"
  by (auto simp: shouldNotifyAccount_def isSigned_def Address_equals_def split: option.splits)

theorem shouldNotifyAccount_iff_witness:
  "shouldNotifyAccount exampleExternals exampleTransaction
     (Address_createFromPublicKey exampleExternals exampleKey 152) \<and>
   \<not> isSigned exampleTransaction (Address_createFromPublicKey exampleExternals exampleKey 152) \<and>
   shouldNotifyAccount exampleExternals exampleTransaction (address exampleSigner) \<and>
   \<not> shouldNotifyAccount exampleExternals exampleTransaction exampleOtherAddress"
  using shouldNotifyAccount_iff [of exampleExternals exampleTransaction exampleOtherAddress]
    shouldNotifyAccount_iff [of exampleExternals exampleTransaction "address exampleSigner"]
  by (simp add: exampleTransaction_def exampleSigner_def exampleKey_def exampleExternals_def
      exampleOtherAddress_def isSigned_def Address_equals_def Address_createFromPublicKey_def
      PublicAccount_createFromPublicKey_def)

text \<open>
  Claim C4 (embedded omits fee and deadline). Whatever an embedded payload holds, the
  instance \<open>createFromPayload\<close> returns for it with \<open>isEmbedded = True\<close> has a
  \<open>maxFee\<close> of zero and the empty deadline.
\<close>

theorem createFromPayload_embedded_fee_deadline:
  assumes "createFromPayload X payload True = Inr r"
  shows "maxFee (instance_of r) = UInt64_new (0, 0) \<and>
         lower (maxFee (instance_of r)) = 0 \<and> higher (maxFee (instance_of r)) = 0 \<and>
         deadline (instance_of r) = Deadline_createEmtpy \<and>
         adjustedValue (deadline (instance_of r)) = 0"
proof -
  from createFromPayload_Inr_decoded [OF assms] obtain binary b where
    bin: "hexToUint8 payload = Inr binary"
    and b: "EmbeddedVotingKeyLinkV1TransactionBuilder_loadFromBinary binary = Inr b"
    by (auto simp: loadBuilder_def)
  from createFromPayload_embedded_decoded [OF bin b, of X] assms
  show ?thesis by (auto simp: toAggregate_def UInt64_new_def Deadline_createEmtpy_def)
qed

theorem createFromPayload_embedded_fee_deadline_witness:
  "createFromPayload exampleExternals exampleEmbeddedPayload True =
     Inr (AsInnerTransaction (toAggregate exampleEmbeddedTransaction exampleZeroAccount)) \<and>
   maxFee exampleEmbeddedTransaction = UInt64_new (0, 0) \<and>
   deadline exampleEmbeddedTransaction = Deadline_createEmtpy"
  using createFromPayload_embedded_fee_deadline [OF example_parse_embedded]
    example_parse_embedded
  by (simp add: toAggregate_def)



text \<open>
  Claim C6 (default fee). \<open>create\<close> called without a \<open>maxFee\<close> gives a transaction whose
  \<open>maxFee\<close> is the 64-bit value zero.
\<close>

theorem create_default_maxFee:
  "maxFee (create dl lpk se ee la nt None sg sn) = UInt64_new (0, 0) \<and>
   lower (maxFee (create dl lpk se ee la nt None sg sn)) = 0 \<and>
   higher (maxFee (create dl lpk se ee la nt None sg sn)) = 0"
  by (simp add: create_def VotingKeyLinkV1Transaction_new_def UInt64_new_def)

text \<open>
  Claim C7 (fixed version and type). Every transaction built by \<open>create\<close> has the version
  \<open>VOTING_KEY_LINK_V1\<close> and the type \<open>VOTING_KEY_LINK\<close>, whatever the arguments.
\<close>

theorem create_version_and_type:
  "version (create dl lpk se ee la nt fee' sg sn) = VOTING_KEY_LINK_V1 \<and>
   type (create dl lpk se ee la nt fee' sg sn) = VOTING_KEY_LINK"
  by (simp add: create_def VotingKeyLinkV1Transaction_new_def)




text \<open>
  Claim C9 (embedded wrapper). For an embedded payload the result is \<open>toAggregate\<close> of the
  parsed transaction with the public account built from the decoded signer key, also when
  that key is all zero, which is exactly the case where the parsed transaction's own
  signer is unset.
\<close>

theorem createFromPayload_embedded_wrapper_signer:
  assumes "createFromPayload X payload True = Inr r"
  shows "\<exists>binary b tx.
     hexToUint8 payload = Inr binary \<and>
     EmbeddedVotingKeyLinkV1TransactionBuilder_loadFromBinary binary = Inr b \<and>
     r = AsInnerTransaction
           (toAggregate tx
              (PublicAccount_createFromPublicKey X
                 (uint8ToHex (key (getSignerPublicKey b))) (getNetwork b))) \<and>
     (signer tx = None \<longleftrightarrow> list_all (\<lambda>x. x = 0) (key (getSignerPublicKey b)))"
proof -
  from createFromPayload_Inr_decoded [OF assms] obtain binary b where
    bin: "hexToUint8 payload = Inr binary"
    and b: "EmbeddedVotingKeyLinkV1TransactionBuilder_loadFromBinary binary = Inr b"
    by (auto simp: loadBuilder_def)
  let ?acct = "PublicAccount_createFromPublicKey X
                 (uint8ToHex (key (getSignerPublicKey b))) (getNetwork b)"
  let ?tx = "create Deadline_createEmtpy
              (uint8ToHex (votingKeyV1 (getLinkedPublicKey b)))
              (finalizationEpoch (getStartEpoch b))
              (finalizationEpoch (getEndEpoch b))
              (getLinkAction b)
              (getNetwork b)
              (Some (UInt64_new (0, 0)))
              (getSignatureFromPayload X payload True)
              (if matchZeros (uint8ToHex (key (getSignerPublicKey b))) then None
               else Some ?acct)"
  from createFromPayload_embedded_decoded [OF bin b, of X] assms
  have len: "length (key (getSignerPublicKey b)) = 32"
    and r: "r = AsInnerTransaction (toAggregate ?tx ?acct)"
    by simp_all
  have sg: "signer ?tx = None \<longleftrightarrow> list_all (\<lambda>x. x = 0) (key (getSignerPublicKey b))"
    using len by (simp add: matchZeros_key)
  show ?thesis
    by (rule exI [of _ binary], rule exI [of _ b], rule exI [of _ ?tx])
      (intro conjI bin b r sg)
qed

theorem createFromPayload_embedded_wrapper_signer_witness:
  "createFromPayload exampleExternals exampleEmbeddedPayload True =
     Inr (AsInnerTransaction (toAggregate exampleEmbeddedTransaction exampleZeroAccount)) \<and>
   signer exampleEmbeddedTransaction = None \<and>
   boundSigner (toAggregate exampleEmbeddedTransaction exampleZeroAccount) =
     PublicAccount_createFromPublicKey exampleExternals
       ''0000000000000000000000000000000000000000000000000000000000000000'' 152"
  using createFromPayload_embedded_wrapper_signer [OF example_parse_embedded]
    example_parse_embedded
  by (simp add: toAggregate_def exampleEmbeddedTransaction_def exampleZeroAccount_def)

text \<open>
  Claim C10 (no transaction info). A transaction built by \<open>create\<close> and an instance
  returned by \<open>createFromPayload\<close> have no \<open>transactionInfo\<close>.
\<close>

theorem create_and_parse_transactionInfo_unset:
  "transactionInfo (create dl lpk se ee la nt fee' sg sn) = None \<and>
   (\<forall>r. createFromPayload X payload isEmbedded = Inr r \<longrightarrow>
          transactionInfo (instance_of r) = None)"
proof (intro conjI allI impI)
  show "transactionInfo (create dl lpk se ee la nt fee' sg sn) = None" by simp
next
  fix r
  assume r: "createFromPayload X payload isEmbedded = Inr r"
  from createFromPayload_Inr_decoded [OF r] obtain binary b where
    bin: "hexToUint8 payload = Inr binary" and b: "loadBuilder isEmbedded binary = Inr b"
    by blast
  show "transactionInfo (instance_of r) = None"
  proof (cases isEmbedded)
    case True
    with b have "EmbeddedVotingKeyLinkV1TransactionBuilder_loadFromBinary binary = Inr b"
      by (simp add: loadBuilder_def)
    from createFromPayload_embedded_decoded [OF bin this, of X] r True
    show ?thesis by (auto simp: toAggregate_def)
  next
    case False
    with b have "VotingKeyLinkV1TransactionBuilder_loadFromBinary binary = Inr b"
      by (simp add: loadBuilder_def)
    from createFromPayload_standalone_decoded [OF bin this, of X] r False
    show ?thesis by auto
  qed
qed

theorem create_and_parse_transactionInfo_unset_witness:
  "transactionInfo exampleTransaction = None \<and>
   createFromPayload exampleExternals exampleStandalonePayload False =
     Inr (AsTransaction exampleTransaction) \<and>
   transactionInfo (instance_of (AsTransaction exampleTransaction)) = None"
  using create_and_parse_transactionInfo_unset
    [of "\<lparr>adjustedValue = 3315799033608\<rparr>" exampleKey 1 10 1 152
      "Some (UInt64_new (100, 0))" None "Some exampleSigner" exampleExternals
      exampleStandalonePayload False]
    example_parse_standalone
  by (simp add: exampleTransaction_def)

end
